theory Spec2Isabelle
  imports Complex_Main
begin

section \<open>Data model\<close>

text \<open>
  The report builder works on plain JavaScript objects read with \<^verbatim>\<open>_.get\<close>. A field that
  is absent (\<^verbatim>\<open>undefined\<close>) is \<open>None\<close>; a field that is present holds a string, or a
  number for \<^verbatim>\<open>confidence\<close>. A number is the real that its decimal representation
  denotes (the representation that \<^verbatim>\<open>_.round\<close> works on), as the data model of the
  specification has it, and comparisons are exact. The arithmetic that rounds, the additions
  and the division of the mean, is not fixed by the model: it is a pair of parameters of
  \<^verbatim>\<open>buildSummary\<close>. The only number that is not a real, \<^verbatim>\<open>NaN\<close>, does not occur.
\<close>

record finding =
  cveId :: "string option"
  packageUrl :: "string option"
  severity :: "string option"
  classification :: "string option"
  fixVersion :: "string option"
  confidence :: "real option"

text \<open>
  A JavaScript object used as a dictionary is an association list in the order in which its
  keys are enumerated; a key occurs once. (An engine enumerates keys that are canonical array
  indices before the others; no statement below depends on the position of a key.)
\<close>

type_synonym 'v obj = "(string \<times> 'v) list"

record ecosystem_summary =
  ecosystem :: string
  count :: nat
  critical :: nat
  high :: nat
  fixable :: nat

text \<open>The fields \<^verbatim>\<open>id, package, severity, classification, fixVersion\<close> of an action item.\<close>

record action_item =
  item_id :: "string option"
  item_package :: "string option"
  item_severity :: "string option"
  item_classification :: "string option"
  item_fixVersion :: "string option"

record overview =
  totalVulnerabilities :: nat
  bySeverity :: "nat obj"
  byClassification :: "nat obj"

text \<open>\<^verbatim>\<open>actionRequired: { count, items }\<close>\<close>

record action_required =
  action_count :: nat
  items :: "action_item list"

text \<open>\<^verbatim>\<open>distribution: { high, medium, low }\<close>\<close>

record distribution =
  dist_high :: nat
  dist_medium :: nat
  dist_low :: nat

text \<open>\<^verbatim>\<open>confidence: { average, minimum, distribution }\<close>\<close>

record confidence_stats =
  average :: real
  minimum :: real
  distribution :: distribution

record summary =
  generatedAt :: string
  summary_overview :: overview
  ecosystems :: "ecosystem_summary obj"
  actionRequired :: action_required
  summary_confidence :: confidence_stats

section \<open>Library operations\<close>

text \<open>\<^verbatim>\<open>_.get(object, path, defaultValue)\<close>: the default stands in for \<^verbatim>\<open>undefined\<close>.\<close>

definition get_default :: "'a option \<Rightarrow> 'a \<Rightarrow> 'a" where
  "get_default v d = (case v of None \<Rightarrow> d | Some x \<Rightarrow> x)"

text \<open>
  \<^verbatim>\<open>String.prototype.toUpperCase\<close> on ASCII text: a lower-case letter becomes its capital,
  every other character is kept. (Text outside ASCII is not modelled; the statements below
  use the function at \<^verbatim>\<open>UNKNOWN\<close>, at the empty string and at \<^verbatim>\<open>critical\<close> only, or
  hold for any key function.)
\<close>

definition upper_char :: "char \<Rightarrow> char" where
  "upper_char c =
     (case map_of (zip ''abcdefghijklmnopqrstuvwxyz'' ''ABCDEFGHIJKLMNOPQRSTUVWXYZ'') c of
        None \<Rightarrow> c
      | Some u \<Rightarrow> u)"

definition toUpperCase :: "string \<Rightarrow> string" where
  "toUpperCase s = map upper_char s"

text \<open>Assignment \<^verbatim>\<open>object[key] = value\<close>: an own key keeps its place, a new key goes last.\<close>

fun obj_put :: "string \<Rightarrow> 'v \<Rightarrow> 'v obj \<Rightarrow> 'v obj" where
  "obj_put k v [] = [(k, v)]"
| "obj_put k v (p # ps) = (if fst p = k then (k, v) # ps else p # obj_put k v ps)"

text \<open>
  \<^verbatim>\<open>_.countBy\<close>: walks the array, \<^verbatim>\<open>++result[key]\<close> when the key is an own property,
  \<^verbatim>\<open>result[key] = 1\<close> otherwise.
\<close>

definition countBy_step :: "('a \<Rightarrow> string) \<Rightarrow> nat obj \<Rightarrow> 'a \<Rightarrow> nat obj" where
  "countBy_step iteratee result x =
     (let key = iteratee x in
      case map_of result key of
        Some n \<Rightarrow> obj_put key (n + 1) result
      | None \<Rightarrow> obj_put key 1 result)"

definition countBy :: "'a list \<Rightarrow> ('a \<Rightarrow> string) \<Rightarrow> nat obj" where
  "countBy xs iteratee = foldl (countBy_step iteratee) [] xs"

text \<open>\<^verbatim>\<open>_.groupBy\<close>: \<^verbatim>\<open>result[key].push(value)\<close> or \<^verbatim>\<open>result[key] = [value]\<close>.\<close>

definition groupBy_step :: "('a \<Rightarrow> string) \<Rightarrow> 'a list obj \<Rightarrow> 'a \<Rightarrow> 'a list obj" where
  "groupBy_step iteratee result x =
     (let key = iteratee x in
      case map_of result key of
        Some vs \<Rightarrow> obj_put key (vs @ [x]) result
      | None \<Rightarrow> obj_put key [x] result)"

definition groupBy :: "'a list \<Rightarrow> ('a \<Rightarrow> string) \<Rightarrow> 'a list obj" where
  "groupBy xs iteratee = foldl (groupBy_step iteratee) [] xs"

text \<open>\<^verbatim>\<open>_.mapValues(object, (value, key) => ...)\<close>: same keys, same order.\<close>

definition mapValues :: "'v obj \<Rightarrow> ('v \<Rightarrow> string \<Rightarrow> 'w) \<Rightarrow> 'w obj" where
  "mapValues object f = map (\<lambda>(k, v). (k, f v k)) object"

text \<open>\<^verbatim>\<open>_.defaults(object, source)\<close>: a key of the source is assigned where the object has none.\<close>

definition defaults :: "'v obj \<Rightarrow> 'v obj \<Rightarrow> 'v obj" where
  "defaults object source =
     foldl (\<lambda>obj (k, v). case map_of obj k of None \<Rightarrow> obj_put k v obj | Some _ \<Rightarrow> obj)
       object source"

text \<open>
  \<^verbatim>\<open>_.compact\<close> drops the falsy entries of an array: of the values a confidence can be,
  \<^verbatim>\<open>undefined\<close> and the number \<^verbatim>\<open>0\<close>.
\<close>

fun compact :: "real option list \<Rightarrow> real list" where
  "compact [] = []"
| "compact (None # vs) = compact vs"
| "compact (Some c # vs) = (if c = 0 then compact vs else c # compact vs)"

text \<open>
  \<^verbatim>\<open>_.mean\<close> of a non-empty array: the sum starts from the first entry, the other entries
  are added to it from left to right, and the sum is divided by the length. The additions and
  the division are those of IEEE doubles, which round their results: they are the parameters
  \<open>fadd\<close> and \<open>fdiv\<close> of the model, and no property of them is built in. (On an empty
  array \<^verbatim>\<open>_.mean\<close> is \<^verbatim>\<open>NaN\<close>; \<^verbatim>\<open>buildSummary\<close> asks \<^verbatim>\<open>_.isEmpty\<close> first and never
  calls it there.)
\<close>

type_synonym float_op = "real \<Rightarrow> real \<Rightarrow> real"

fun baseSum :: "float_op \<Rightarrow> real list \<Rightarrow> real" where
  "baseSum fadd [] = 0"
| "baseSum fadd (x # xs) = foldl fadd x xs"

definition mean :: "float_op \<Rightarrow> float_op \<Rightarrow> real list \<Rightarrow> real" where
  "mean fadd fdiv xs = fdiv (baseSum fadd xs) (real (length xs))"

text \<open>
  \<^verbatim>\<open>_.round(x, 2)\<close>: the library shifts the decimal representation of the number by two
  places, applies \<^verbatim>\<open>Math.round\<close>, which rounds a half up, and shifts back.
\<close>

definition round2 :: "real \<Rightarrow> real" where
  "round2 x = of_int \<lfloor>x * 100 + 1 / 2\<rfloor> / 100"

section \<open>buildSummary\<close>

text \<open>The key of the severity count: \<^verbatim>\<open>_.get(r, "severity", "UNKNOWN").toUpperCase()\<close>.\<close>

definition severityKey :: "finding \<Rightarrow> string" where
  "severityKey r = toUpperCase (get_default (severity r) ''UNKNOWN'')"

definition classificationKey :: "finding \<Rightarrow> string" where
  "classificationKey r = get_default (classification r) ''UNCLASSIFIED''"

text \<open>
  The regular expression \<^verbatim>\<open>/^pkg:(\w+)\//\<close>: the text \<^verbatim>\<open>pkg:\<close> at the start, a
  non-empty run of word characters (letters, digits, underscore), which is the captured group,
  and a slash. The run is the longest one, since the character after it has to be a slash,
  which is no word character.
\<close>

definition is_word_char :: "char \<Rightarrow> bool" where
  "is_word_char c \<longleftrightarrow>
     c \<in> set ''abcdefghijklmnopqrstuvwxyzABCDEFGHIJKLMNOPQRSTUVWXYZ0123456789_''"

definition purl_match :: "string \<Rightarrow> string option" where
  "purl_match purl =
     (if take 4 purl = ''pkg:'' then
        (let rest = drop 4 purl;
             w = takeWhile is_word_char rest
         in if w \<noteq> [] \<and> take 1 (dropWhile is_word_char rest) = ''/'' then Some w else None)
      else None)"

definition ecosystemKey :: "finding \<Rightarrow> string" where
  "ecosystemKey r =
     (let purl = get_default (packageUrl r) '''' in
      case purl_match purl of Some m \<Rightarrow> m | None \<Rightarrow> ''unknown'')"

definition ecosystemSummary :: "finding list \<Rightarrow> string \<Rightarrow> ecosystem_summary" where
  "ecosystemSummary its eco =
     \<lparr> ecosystem = eco,
       count = length its,
       critical = length (filter (\<lambda>i. severity i = Some ''CRITICAL'') its),
       high = length (filter (\<lambda>i. severity i = Some ''HIGH'') its),
       fixable = length (filter (\<lambda>i. classification i \<in>
                    set [Some ''SAFE_PATCH'', Some ''MINOR_BUMP'', Some ''MAJOR_BUMP_SAFE'']) its) \<rparr>"

text \<open>The sort key of the ranking: \<^verbatim>\<open>_.get(order, severity.toUpperCase(), 99)\<close>.\<close>

definition severityOrder :: "finding \<Rightarrow> nat" where
  "severityOrder r =
     (let s = toUpperCase (get_default (severity r) '''') in
      if s = ''CRITICAL'' then 0 else if s = ''HIGH'' then 1 else 99)"

text \<open>
  The chain \<^verbatim>\<open>filter\<close>, \<^verbatim>\<open>filter\<close>, \<^verbatim>\<open>sortBy\<close>, \<^verbatim>\<open>take(10)\<close>. \<^verbatim>\<open>_.sortBy\<close> sorts
  ascending by the key and is stable (ties are broken by the index in the array), which is
  what \<open>sort_key\<close> does.
\<close>

definition actionRequiredFindings :: "finding list \<Rightarrow> finding list" where
  "actionRequiredFindings results =
     take 10
       (sort_key severityOrder
          (filter (\<lambda>r. classification r \<in> set [Some ''SAFE_PATCH'', Some ''MINOR_BUMP''])
             (filter (\<lambda>r. toUpperCase (get_default (severity r) '''') \<in> set [''CRITICAL'', ''HIGH''])
                results)))"

definition actionItem :: "finding \<Rightarrow> action_item" where
  "actionItem r =
     \<lparr> item_id = cveId r,
       item_package = packageUrl r,
       item_severity = severity r,
       item_classification = classification r,
       item_fixVersion = fixVersion r \<rparr>"

definition confidences :: "finding list \<Rightarrow> real list" where
  "confidences results = compact (map confidence results)"

text \<open>
  \<open>now\<close> is the value of \<^verbatim>\<open>new Date().toISOString()\<close> at the call, \<open>fadd\<close> and
  \<open>fdiv\<close> are the addition and the division of the runtime's numbers; everything else
  is computed from the array.
\<close>

definition buildSummary :: "float_op \<Rightarrow> float_op \<Rightarrow> string \<Rightarrow> finding list \<Rightarrow> summary" where
  "buildSummary fadd fdiv now results =
     (let total = length results;
          bySev = countBy results severityKey;
          byCls = countBy results classificationKey;
          byEcosystem = groupBy results ecosystemKey;
          ecosystemSummaries = mapValues byEcosystem ecosystemSummary;
          required = actionRequiredFindings results;
          cs = confidences results;
          avgConfidence = (if cs = [] then 0 else round2 (mean fadd fdiv cs));
          minConfidence = (if cs = [] then 0 else min_list cs)
      in \<lparr> generatedAt = now,
           summary_overview =
             \<lparr> totalVulnerabilities = total,
               bySeverity = defaults bySev
                 [(''CRITICAL'', 0), (''HIGH'', 0), (''MEDIUM'', 0), (''LOW'', 0)],
               byClassification = byCls \<rparr>,
           ecosystems = ecosystemSummaries,
           actionRequired =
             \<lparr> action_count = length required,
               items = map actionItem required \<rparr>,
           summary_confidence =
             \<lparr> average = avgConfidence,
               minimum = minConfidence,
               distribution =
                 \<lparr> dist_high = length (filter (\<lambda>c. c \<ge> 8 / 10) cs),
                   dist_medium = length (filter (\<lambda>c. c \<ge> 5 / 10 \<and> c < 8 / 10) cs),
                   dist_low = length (filter (\<lambda>c. c < 5 / 10) cs) \<rparr> \<rparr> \<rparr>)"

section \<open>renderMarkdown\<close>

text \<open>A count in a template literal: the decimal digits of the number.\<close>

definition digit_char :: "nat \<Rightarrow> char" where
  "digit_char d = ''0123456789'' ! d"

function show_nat :: "nat \<Rightarrow> string" where
  "show_nat n = (if n < 10 then [digit_char n] else show_nat (n div 10) @ [digit_char (n mod 10)])"
  by pat_completeness auto
termination
  by (relation "measure (\<lambda>n. n)") auto

declare show_nat.simps [simp del]

text \<open>A field of an item in a template literal: an absent one reads \<^verbatim>\<open>undefined\<close>.\<close>

definition show_field :: "string option \<Rightarrow> string" where
  "show_field v = get_default v ''undefined''"

text \<open>\<^verbatim>\<open>item.fixVersion || "N/A"\<close>: the absent and the empty string are falsy.\<close>

definition fix_or_na :: "string option \<Rightarrow> string" where
  "fix_or_na v = (case v of None \<Rightarrow> ''N/A'' | Some s \<Rightarrow> if s = [] then ''N/A'' else s)"

text \<open>\<^verbatim>\<open>_.join(lines, "\n")\<close>\<close>

fun join :: "string list \<Rightarrow> string \<Rightarrow> string" where
  "join [] sep = []"
| "join [l] sep = l"
| "join (l # m # ls) sep = l @ sep @ join (m # ls) sep"

text \<open>
  \<^verbatim>\<open>_.map(ov.byClassification, (count, cls) => ...)\<close>. The library walks the own keys of an
  object, unless the object is array-like, that is, unless it has a \<^verbatim>\<open>length\<close> that is a
  count: then it walks the indices below that length, and the value at an index that is no
  key is \<^verbatim>\<open>undefined\<close>.
\<close>

definition classificationLines :: "nat obj \<Rightarrow> string list" where
  "classificationLines byCls =
     (case map_of byCls ''length'' of
        None \<Rightarrow> map (\<lambda>(cls, n). ''- **'' @ cls @ ''**: '' @ show_nat n) byCls
      | Some len \<Rightarrow>
          map (\<lambda>i. ''- **'' @ show_nat i @ ''**: '' @
                 (case map_of byCls (show_nat i) of
                    None \<Rightarrow> ''undefined''
                  | Some n \<Rightarrow> show_nat n))
            [0..<len])"

text \<open>The values of \<^verbatim>\<open>summary.ecosystems\<close> are objects, so that object is never array-like.\<close>

definition ecosystemLines :: "ecosystem_summary obj \<Rightarrow> string list" where
  "ecosystemLines ecos =
     map (\<lambda>(k, eco). ''- **'' @ ecosystem eco @ ''**: '' @ show_nat (count eco) @
            '' vulns ('' @ show_nat (fixable eco) @ '' fixable)'') ecos"

text \<open>The dash and the arrow of the item line are the UTF-8 bytes of U+2014 and U+2192.\<close>

definition itemLines :: "action_item list \<Rightarrow> string list" where
  "itemLines its =
     map (\<lambda>item. ''- `'' @ show_field (item_id item) @ ''` in `'' @
            show_field (item_package item) @ ''` '' @ [CHR 0xE2, CHR 0x80, CHR 0x94] @ '' '' @
            show_field (item_severity item) @ '' / '' @
            show_field (item_classification item) @ '' '' @ [CHR 0xE2, CHR 0x86, CHR 0x92] @
            '' fix: '' @ fix_or_na (item_fixVersion item)) its"

text \<open>
  \<open>num\<close> is the conversion of a number to a string by the template literal, for the two
  numbers of the summary that are no counts.
\<close>

definition renderLines :: "(real \<Rightarrow> string) \<Rightarrow> summary \<Rightarrow> string list" where
  "renderLines num s =
     (let ov = summary_overview s in
      [''# Vulnerability Scan Summary'',
       '''',
       ''**'' @ show_nat (totalVulnerabilities ov) @ ''** vulnerabilities found | '' @
         ''**'' @ show_nat (get_default (map_of (bySeverity ov) ''CRITICAL'') 0) @ ''** critical | '' @
         ''**'' @ show_nat (get_default (map_of (bySeverity ov) ''HIGH'') 0) @ ''** high'',
       '''',
       ''## By Classification''] @
      classificationLines (byClassification ov) @
      ['''',
       ''## Ecosystems''] @
      ecosystemLines (ecosystems s) @
      ['''',
       ''## Action Required ('' @ show_nat (action_count (actionRequired s)) @ '')''] @
      itemLines (items (actionRequired s)) @
      ['''',
       ''---'',
       ''_Confidence: avg '' @ num (average (summary_confidence s)) @ '' | min '' @
         num (minimum (summary_confidence s)) @ ''_'',
       ''_Generated: '' @ generatedAt s @ ''_''])"

definition renderMarkdown :: "(real \<Rightarrow> string) \<Rightarrow> summary \<Rightarrow> string" where
  "renderMarkdown num s = join (renderLines num s) [CHR 0x0A]"

section \<open>Notions of the specification\<close>

text \<open>The values of the entries of an array that are defined, in order.\<close>

fun definedValues :: "'a option list \<Rightarrow> 'a list" where
  "definedValues [] = []"
| "definedValues (None # vs) = definedValues vs"
| "definedValues (Some v # vs) = v # definedValues vs"

text \<open>The arithmetic mean of the specification: the exact sum divided by the number of values.\<close>

definition arithmeticMean :: "real list \<Rightarrow> real" where
  "arithmeticMean xs = sum_list xs / real (length xs)"

text \<open>
  The specification's reading of a package URL \<^verbatim>\<open>pkg:<ecosystem>/<rest>\<close>: it starts with
  \<^verbatim>\<open>pkg:\<close> and has a slash after that; the ecosystem is the text between \<^verbatim>\<open>pkg:\<close> and
  the first slash.
\<close>

definition purl_has_segment :: "string \<Rightarrow> bool" where
  "purl_has_segment purl \<longleftrightarrow> take 4 purl = ''pkg:'' \<and> CHR ''/'' \<in> set (drop 4 purl)"

definition purl_segment :: "string \<Rightarrow> string" where
  "purl_segment purl = takeWhile (\<lambda>c. c \<noteq> CHR ''/'') (drop 4 purl)"

definition spec_ecosystem :: "finding \<Rightarrow> string" where
  "spec_ecosystem r =
     (case packageUrl r of
        None \<Rightarrow> ''unknown''
      | Some purl \<Rightarrow> if purl_has_segment purl then purl_segment purl else ''unknown'')"

text \<open>The same, with a segment that is a non-empty run of word characters.\<close>

definition purl_word_segment :: "string \<Rightarrow> bool" where
  "purl_word_segment purl \<longleftrightarrow>
     purl_has_segment purl \<and> purl_segment purl \<noteq> [] \<and> list_all is_word_char (purl_segment purl)"

text \<open>
  The selection of the action ranker in the specification's words: the severity, normalised
  as for the severity counts, is \<^verbatim>\<open>CRITICAL\<close> or \<^verbatim>\<open>HIGH\<close>, and the classification is
  \<^verbatim>\<open>SAFE_PATCH\<close> or \<^verbatim>\<open>MINOR_BUMP\<close>.
\<close>

definition actionable :: "finding \<Rightarrow> bool" where
  "actionable r \<longleftrightarrow>
     (severityKey r = ''CRITICAL'' \<or> severityKey r = ''HIGH'') \<and>
     (classification r = Some ''SAFE_PATCH'' \<or> classification r = Some ''MINOR_BUMP'')"

section \<open>Example inputs\<close>

text \<open>The three findings of the specification's example scenario.\<close>

definition example_findings :: "finding list" where
  "example_findings =
     [\<lparr> cveId = Some ''CVE-1'', packageUrl = Some ''pkg:npm/foo'', severity = Some ''CRITICAL'',
        classification = Some ''SAFE_PATCH'', fixVersion = Some ''1.2.3'',
        confidence = Some (9 / 10) \<rparr>,
      \<lparr> cveId = Some ''CVE-2'', packageUrl = Some ''pkg:npm/bar'', severity = Some ''HIGH'',
        classification = Some ''MAJOR_BUMP_SAFE'', fixVersion = None,
        confidence = Some (6 / 10) \<rparr>,
      \<lparr> cveId = Some ''CVE-3'', packageUrl = Some ''pkg:pypi/baz'', severity = Some ''LOW'',
        classification = Some ''NO_FIX'', fixVersion = None,
        confidence = Some (3 / 10) \<rparr>]"

text \<open>A finding with a confidence of zero.\<close>

definition zero_confidence_finding :: finding where
  "zero_confidence_finding =
     \<lparr> cveId = Some ''CVE-4'', packageUrl = Some ''pkg:npm/qux'', severity = Some ''LOW'',
       classification = Some ''NO_FIX'', fixVersion = None, confidence = Some 0 \<rparr>"



text \<open>A finding whose package URL has a hyphen in its first segment.\<close>

definition hyphen_finding :: finding where
  "hyphen_finding =
     \<lparr> cveId = Some ''CVE-6'', packageUrl = Some ''pkg:my-eco/foo'', severity = Some ''LOW'',
       classification = Some ''NO_FIX'', fixVersion = None, confidence = None \<rparr>"

text \<open>A finding whose severity is written in lower case.\<close>

definition lowercase_finding :: finding where
  "lowercase_finding =
     \<lparr> cveId = Some ''CVE-7'', packageUrl = Some ''pkg:npm/foo'', severity = Some ''critical'',
       classification = Some ''SAFE_PATCH'', fixVersion = None, confidence = None \<rparr>"

section \<open>Association lists as objects\<close>

lemma map_of_obj_put: "map_of (obj_put k v ps) = (map_of ps)(k \<mapsto> v)"
  by (induction ps) (auto simp: fun_eq_iff)

lemma keys_obj_put: "fst ` set (obj_put k v ps) = insert k (fst ` set ps)"
  by (induction ps) auto

lemma distinct_obj_put: "distinct (map fst ps) \<Longrightarrow> distinct (map fst (obj_put k v ps))"
proof (induction ps)
  case Nil
  show ?case by simp
next
  case (Cons p ps)
  have "fst p \<notin> fst ` set (obj_put k v ps)" if "fst p \<noteq> k"
    using that Cons.prems by (simp add: keys_obj_put)
  with Cons show ?case by auto
qed

lemma sum_obj_put_new:
  "map_of ps k = None \<Longrightarrow> sum_list (map snd (obj_put k v ps)) = sum_list (map snd ps) + (v::nat)"
  by (induction ps) (auto split: if_splits)

lemma sum_obj_put_old:
  "map_of ps k = Some w \<Longrightarrow>
   sum_list (map snd (obj_put k (w + d) ps)) = sum_list (map snd ps) + (d::nat)"
  by (induction ps) (auto split: if_splits)

lemma countBy_snoc: "countBy (xs @ [x]) f = countBy_step f (countBy xs f) x"
  by (simp add: countBy_def)



lemma sum_countBy: "sum_list (map snd (countBy xs f)) = length xs"
proof (induction xs rule: rev_induct)
  case Nil
  show ?case by (simp add: countBy_def)
next
  case (snoc x xs)
  show ?case
  proof (cases "map_of (countBy xs f) (f x)")
    case None
    then show ?thesis
      using snoc by (simp add: countBy_snoc countBy_step_def sum_obj_put_new)
  next
    case (Some n)
    then show ?thesis
      using snoc sum_obj_put_old [OF Some, of 1]
      by (simp add: countBy_snoc countBy_step_def)
  qed
qed


subsection \<open>defaults\<close>


lemma sum_defaults_zero:
  "\<forall>p \<in> set source. snd p = (0::nat) \<Longrightarrow>
   sum_list (map snd (defaults object source)) = sum_list (map snd object)"
  unfolding defaults_def
proof (induction source arbitrary: object)
  case Nil
  show ?case by simp
next
  case (Cons p source)
  then show ?case
    by (cases p) (auto simp: sum_obj_put_new split: option.splits)
qed


subsection \<open>groupBy\<close>

lemma groupBy_snoc: "groupBy (xs @ [x]) f = groupBy_step f (groupBy xs f) x"
  by (simp add: groupBy_def)

lemma map_of_groupBy_step:
  "map_of (groupBy_step f result x) =
     (map_of result)(f x \<mapsto> (case map_of result (f x) of None \<Rightarrow> [x] | Some vs \<Rightarrow> vs @ [x]))"
  by (simp add: groupBy_step_def Let_def map_of_obj_put split: option.splits)

lemma map_of_groupBy:
  "map_of (groupBy xs f) k =
     (if k \<in> f ` set xs then Some (filter (\<lambda>x. f x = k) xs) else None)"
proof (induction xs arbitrary: k rule: rev_induct)
  case Nil
  show ?case by (simp add: groupBy_def)
next
  case (snoc x xs)
  show ?case
  proof (cases "k = f x")
    case True
    show ?thesis
    proof (cases "f x \<in> f ` set xs")
      case True
      with \<open>k = f x\<close> show ?thesis
        by (simp add: groupBy_snoc map_of_groupBy_step snoc.IH)
    next
      case False
      then have "filter (\<lambda>y. f y = f x) xs = []"
        by (intro filter_False ballI) (metis imageI)
      with False \<open>k = f x\<close> show ?thesis
        by (simp add: groupBy_snoc map_of_groupBy_step snoc.IH)
    qed
  next
    case False
    then show ?thesis
      by (simp add: groupBy_snoc map_of_groupBy_step snoc.IH)
  qed
qed

lemma distinct_groupBy: "distinct (map fst (groupBy xs f))"
  by (induction xs rule: rev_induct)
     (auto simp: groupBy_def groupBy_step_def Let_def distinct_obj_put split: option.splits)

lemma groupBy_entry:
  assumes "(k, its) \<in> set (groupBy xs f)"
  shows "its = filter (\<lambda>x. f x = k) xs" and "k \<in> f ` set xs"
proof -
  from assms have "map_of (groupBy xs f) k = Some its"
    by (simp add: distinct_groupBy)
  then show "its = filter (\<lambda>x. f x = k) xs" and "k \<in> f ` set xs"
    by (auto simp: map_of_groupBy split: if_splits)
qed

subsection \<open>sorting by a key with two values\<close>

lemma insort_key_append:
  "\<forall>a \<in> set as. f a < f x \<Longrightarrow> \<forall>b \<in> set bs. f x \<le> f b \<Longrightarrow>
   insort_key f x (as @ bs) = as @ x # bs"
  by (induction as) (auto simp: insort_is_Cons)

lemma sort_key_two_ranks:
  fixes f :: "'a \<Rightarrow> nat"
  assumes "\<forall>x \<in> set xs. f x = 0 \<or> f x = 1"
  shows "sort_key f xs = filter (\<lambda>x. f x = 0) xs @ filter (\<lambda>x. f x = 1) xs"
  using assms
proof (induction xs)
  case Nil
  show ?case by simp
next
  case (Cons x xs)
  let ?A = "filter (\<lambda>x. f x = 0) xs" and ?B = "filter (\<lambda>x. f x = 1) xs"
  from Cons have IH: "sort_key f xs = ?A @ ?B" by simp
  from Cons.prems have "f x = 0 \<or> f x = 1" by simp
  then show ?case
  proof
    assume "f x = 0"
    then have "insort_key f x (?A @ ?B) = x # ?A @ ?B"
      by (simp add: insort_is_Cons)
    with \<open>f x = 0\<close> IH show ?thesis by simp
  next
    assume "f x = 1"
    then have "insort_key f x (?A @ ?B) = ?A @ x # ?B"
      by (intro insort_key_append) auto
    with \<open>f x = 1\<close> IH show ?thesis by simp
  qed
qed

section \<open>Evaluation on concrete inputs\<close>

lemmas build_defs =
  buildSummary_def Let_def countBy_def countBy_step_def groupBy_def groupBy_step_def
  mapValues_def defaults_def ecosystemSummary_def actionRequiredFindings_def actionItem_def
  confidences_def severityKey_def classificationKey_def ecosystemKey_def purl_match_def
  is_word_char_def severityOrder_def toUpperCase_def upper_char_def get_default_def
  mean_def round2_def arithmeticMean_def

section \<open>Facts about the parts of the summary\<close>

subsection \<open>severity counts and ecosystems\<close>

lemma bySeverity_eq:
  "bySeverity (summary_overview (buildSummary fadd fdiv now results)) =
     defaults (countBy results severityKey)
       [(''CRITICAL'', 0), (''HIGH'', 0), (''MEDIUM'', 0), (''LOW'', 0)]"
  by (simp add: buildSummary_def Let_def)

lemma ecosystems_eq:
  "ecosystems (buildSummary fadd fdiv now results) =
     mapValues (groupBy results ecosystemKey) ecosystemSummary"
  by (simp add: buildSummary_def Let_def)

lemma length_two_filters:
  "(\<And>x. \<not> (P x \<and> Q x)) \<Longrightarrow> length (filter P xs) + length (filter Q xs) \<le> length xs"
  by (induction xs) auto

subsection \<open>action ranker\<close>

lemma selection_actionable:
  "filter (\<lambda>r. classification r \<in> set [Some ''SAFE_PATCH'', Some ''MINOR_BUMP''])
     (filter (\<lambda>r. toUpperCase (get_default (severity r) '''') \<in> set [''CRITICAL'', ''HIGH''])
        results) = filter actionable results"
proof -
  have "toUpperCase (get_default (severity r) '''') \<in> set [''CRITICAL'', ''HIGH''] \<longleftrightarrow>
        severityKey r = ''CRITICAL'' \<or> severityKey r = ''HIGH''" for r
    by (cases "severity r")
       (simp_all add: severityKey_def get_default_def toUpperCase_def upper_char_def)
  then show ?thesis
    by (auto simp: actionable_def intro: filter_cong)
qed

lemma severityOrder_actionable:
  assumes "actionable r"
  shows "severityOrder r = (if severityKey r = ''CRITICAL'' then 0 else 1)"
proof (cases "severity r")
  case None
  with assms show ?thesis
    by (simp add: actionable_def severityKey_def get_default_def toUpperCase_def upper_char_def)
next
  case (Some s)
  with assms show ?thesis
    by (auto simp: actionable_def severityKey_def severityOrder_def get_default_def Let_def)
qed

lemma actionRequiredFindings_eq:
  "actionRequiredFindings results =
     take 10 (filter (\<lambda>r. severityKey r = ''CRITICAL'') (filter actionable results) @
              filter (\<lambda>r. severityKey r = ''HIGH'') (filter actionable results))"
proof -
  let ?sel = "filter actionable results"
  have ranks: "\<forall>r \<in> set ?sel. severityOrder r = 0 \<or> severityOrder r = 1"
    by (simp add: severityOrder_actionable)
  have crit: "filter (\<lambda>r. severityOrder r = 0) ?sel = filter (\<lambda>r. severityKey r = ''CRITICAL'') ?sel"
    by (rule filter_cong) (auto simp: severityOrder_actionable)
  have hi: "filter (\<lambda>r. severityOrder r = 1) ?sel = filter (\<lambda>r. severityKey r = ''HIGH'') ?sel"
    by (rule filter_cong) (auto simp: severityOrder_actionable actionable_def)
  have "sort_key severityOrder ?sel =
          filter (\<lambda>r. severityKey r = ''CRITICAL'') ?sel @ filter (\<lambda>r. severityKey r = ''HIGH'') ?sel"
    using sort_key_two_ranks [OF ranks] by (simp only: crit hi)
  then show ?thesis
    by (simp only: actionRequiredFindings_def selection_actionable)
qed

subsection \<open>confidence\<close>

lemma confidence_eq:
  "summary_confidence (buildSummary fadd fdiv now results) =
     \<lparr> average = (if confidences results = [] then 0
                  else round2 (mean fadd fdiv (confidences results))),
       minimum = (if confidences results = [] then 0 else min_list (confidences results)),
       distribution =
         \<lparr> dist_high = length (filter (\<lambda>c. c \<ge> 8 / 10) (confidences results)),
           dist_medium = length (filter (\<lambda>c. c \<ge> 5 / 10 \<and> c < 8 / 10) (confidences results)),
           dist_low = length (filter (\<lambda>c. c < 5 / 10) (confidences results)) \<rparr> \<rparr>"
  by (simp add: buildSummary_def Let_def)

lemma three_buckets:
  "length (filter (\<lambda>c. c \<ge> 8 / 10) cs) +
   length (filter (\<lambda>c. c \<ge> 5 / 10 \<and> c < 8 / 10) cs) +
   length (filter (\<lambda>c. c < 5 / 10) cs) = length (cs :: real list)"
  by (induction cs) auto

lemma distribution_sum_collected:
  "dist_high (distribution (summary_confidence (buildSummary fadd fdiv now results))) +
   dist_medium (distribution (summary_confidence (buildSummary fadd fdiv now results))) +
   dist_low (distribution (summary_confidence (buildSummary fadd fdiv now results))) =
     length (confidences results)"
  using three_buckets [of "confidences results"] by (simp add: confidence_eq)









subsection \<open>ecosystem of a package URL\<close>

lemma not_word_slash: "\<not> is_word_char (CHR ''/'')"
  by (simp add: is_word_char_def)

lemma takeWhile_run: "\<forall>x \<in> set w. P x \<Longrightarrow> \<not> P y \<Longrightarrow> takeWhile P (w @ y # r) = w"
  by (induction w) auto

lemma dropWhile_run: "\<forall>x \<in> set w. P x \<Longrightarrow> \<not> P y \<Longrightarrow> dropWhile P (w @ y # r) = y # r"
  by (induction w) auto

lemma purl_match_eq:
  "purl_match purl = (if purl_word_segment purl then Some (purl_segment purl) else None)"
proof (cases "take 4 purl = ''pkg:''")
  case False
  then show ?thesis
    by (simp add: purl_match_def purl_word_segment_def purl_has_segment_def)
next
  case True
  let ?rest = "drop 4 purl"
  let ?w = "takeWhile is_word_char ?rest" and ?d = "dropWhile is_word_char ?rest"
  show ?thesis
  proof (cases "?w \<noteq> [] \<and> take 1 ?d = ''/''")
    case True
    then obtain r where d: "?d = CHR ''/'' # r"
      by (cases ?d) auto
    have rest: "?rest = ?w @ CHR ''/'' # r"
      using takeWhile_dropWhile_id [of is_word_char ?rest] d by simp
    have words: "\<forall>c \<in> set ?w. is_word_char c"
      by (auto dest: set_takeWhileD)
    then have "\<forall>c \<in> set ?w. c \<noteq> CHR ''/''"
      using not_word_slash by auto
    then have "takeWhile (\<lambda>c. c \<noteq> CHR ''/'') (?w @ CHR ''/'' # r) = ?w"
      by (intro takeWhile_run) auto
    with rest have seg: "purl_segment purl = ?w"
      by (simp add: purl_segment_def)
    have "CHR ''/'' \<in> set ?rest"
      by (subst rest) simp
    with \<open>take 4 purl = ''pkg:''\<close> True words seg show ?thesis
      by (simp add: purl_match_def purl_word_segment_def purl_has_segment_def Let_def
            list_all_iff)
  next
    case False
    have "\<not> purl_word_segment purl"
    proof
      assume ws: "purl_word_segment purl"
      let ?s = "purl_segment purl"
      from ws have slash: "CHR ''/'' \<in> set ?rest" and ne: "?s \<noteq> []"
        and words: "\<forall>c \<in> set ?s. is_word_char c"
        by (auto simp: purl_word_segment_def purl_has_segment_def list_all_iff)
      from slash have "dropWhile (\<lambda>c. c \<noteq> CHR ''/'') ?rest \<noteq> []"
        by (auto simp: dropWhile_eq_Nil_conv)
      then obtain r where "dropWhile (\<lambda>c. c \<noteq> CHR ''/'') ?rest = CHR ''/'' # r"
        using hd_dropWhile [of "\<lambda>c. c \<noteq> CHR ''/''" ?rest]
        by (cases "dropWhile (\<lambda>c. c \<noteq> CHR ''/'') ?rest") auto
      with takeWhile_dropWhile_id [of "\<lambda>c. c \<noteq> CHR ''/''" ?rest]
      have rest: "?rest = ?s @ CHR ''/'' # r"
        by (simp add: purl_segment_def)
      have "takeWhile is_word_char (?s @ CHR ''/'' # r) = ?s"
        and "dropWhile is_word_char (?s @ CHR ''/'' # r) = CHR ''/'' # r"
        using words not_word_slash by (auto intro: takeWhile_run dropWhile_run)
      with rest have "?w = ?s" and "?d = CHR ''/'' # r"
        by simp_all
      with ne False show False by simp
    qed
    with False \<open>take 4 purl = ''pkg:''\<close> show ?thesis
      by (auto simp: purl_match_def Let_def)
  qed
qed

subsection \<open>rendering\<close>

lemma join_snoc: "ls \<noteq> [] \<Longrightarrow> join (ls @ [l]) sep = join ls sep @ sep @ l"
  by (induction ls sep rule: join.induct) auto

lemma renderLines_last:
  "renderLines num s = butlast (renderLines num s) @ [''_Generated: '' @ generatedAt s @ ''_'']"
  by (simp add: renderLines_def Let_def butlast_append)

lemma renderLines_butlast:
  assumes "summary_overview s' = summary_overview s" and "ecosystems s' = ecosystems s"
    and "actionRequired s' = actionRequired s" and "summary_confidence s' = summary_confidence s"
  shows "butlast (renderLines num s') = butlast (renderLines num s)"
  using assms by (simp add: renderLines_def Let_def butlast_append)

lemma renderLines_butlast_nonempty: "butlast (renderLines num s) \<noteq> []"
  by (simp add: renderLines_def Let_def butlast_append)

lemma renderMarkdown_split:
  "renderMarkdown num s =
     join (butlast (renderLines num s)) [CHR 0x0A] @ [CHR 0x0A] @
     ''_Generated: '' @ generatedAt s @ ''_''"
proof -
  have "renderMarkdown num s =
          join (butlast (renderLines num s) @ [''_Generated: '' @ generatedAt s @ ''_'']) [CHR 0x0A]"
    using renderLines_last [of num s] by (simp add: renderMarkdown_def)
  then show ?thesis
    by (simp only: join_snoc [OF renderLines_butlast_nonempty])
qed

section \<open>The claims\<close>

text \<open>
  C1, at a finding with a confidence of zero. The claim counts every finding whose
  \<^verbatim>\<open>confidence\<close> field is present; \<^verbatim>\<open>_.compact\<close> drops the zero with the absent values,
  so the one finding that carries a confidence is in no bucket. (What the three buckets do
  sum to is the number of collected values, \<open>distribution_sum_collected\<close>.)
\<close>

theorem zero_confidence_dropped:
  "length (definedValues (map confidence [zero_confidence_finding])) = 1 \<and>
   distribution (summary_confidence (buildSummary fadd fdiv now [zero_confidence_finding])) =
     \<lparr> dist_high = 0, dist_medium = 0, dist_low = 0 \<rparr>"
  by (simp add: build_defs zero_confidence_finding_def)

text \<open>
  C2 as stated fails: for the package URL \<^verbatim>\<open>pkg:my-eco/foo\<close> the text between
  \<^verbatim>\<open>pkg:\<close> and the first slash is \<^verbatim>\<open>my-eco\<close>, and the finding is grouped under
  \<^verbatim>\<open>unknown\<close>, because the regular expression takes word characters only.
\<close>

theorem hyphen_ecosystem:
  "ecosystemKey hyphen_finding = ''unknown'' \<and> spec_ecosystem hyphen_finding = ''my-eco''"
  by (simp add: build_defs hyphen_finding_def spec_ecosystem_def purl_has_segment_def
        purl_segment_def)

text \<open>
  C2, amended. When the package URL is \<^verbatim>\<open>pkg:\<close>, a non-empty run of word characters
  (letters, digits, underscore) and a slash, the ecosystem of the finding is that run, which
  is the text between \<^verbatim>\<open>pkg:\<close> and the first slash; in every other case, also when the
  package URL is absent, it is \<^verbatim>\<open>unknown\<close>. So the ecosystem is \<^verbatim>\<open>unknown\<close> exactly when
  the package URL has no such shape or its segment is the word \<^verbatim>\<open>unknown\<close> itself.
\<close>

theorem ecosystem_word_segment:
  "ecosystemKey r =
     (case packageUrl r of
        None \<Rightarrow> ''unknown''
      | Some purl \<Rightarrow> if purl_word_segment purl then purl_segment purl else ''unknown'') \<and>
   (ecosystemKey r = ''unknown'' \<longleftrightarrow>
     (case packageUrl r of
        None \<Rightarrow> True
      | Some purl \<Rightarrow> \<not> purl_word_segment purl \<or> purl_segment purl = ''unknown''))"
proof -
  have "\<not> purl_word_segment ''''"
    by (simp add: purl_word_segment_def purl_has_segment_def)
  then show ?thesis
    by (cases "packageUrl r")
       (simp_all add: ecosystemKey_def get_default_def purl_match_eq Let_def)
qed

theorem ecosystem_word_segment_witness:
  "purl_word_segment ''pkg:npm/foo'' \<and> purl_segment ''pkg:npm/foo'' = ''npm'' \<and>
   ecosystemKey (hd example_findings) = ''npm'' \<and>
   ecosystemKey (hd example_findings) \<noteq> ''unknown''"
proof -
  have p: "packageUrl (hd example_findings) = Some ''pkg:npm/foo''"
    by (simp add: example_findings_def)
  have w: "purl_word_segment ''pkg:npm/foo''" and s: "purl_segment ''pkg:npm/foo'' = ''npm''"
    by (simp_all add: purl_word_segment_def purl_has_segment_def purl_segment_def
          is_word_char_def)
  from ecosystem_word_segment [of "hd example_findings"] p w s
  show ?thesis by simp
qed




text \<open>
  C4. The items of \<^verbatim>\<open>actionRequired\<close> are the first ten, at most, of the actionable
  findings (severity \<^verbatim>\<open>CRITICAL\<close> or \<^verbatim>\<open>HIGH\<close>, read as the severity counts read it, and
  classification \<^verbatim>\<open>SAFE_PATCH\<close> or \<^verbatim>\<open>MINOR_BUMP\<close>) after a stable sort with
  \<^verbatim>\<open>CRITICAL\<close> before \<^verbatim>\<open>HIGH\<close>: the critical ones in the order of the input, then the
  high ones in the order of the input, cut after ten, each projected to an item. The list
  is never longer than ten, and \<^verbatim>\<open>count\<close> is its length.
\<close>

theorem actionRequired_items:
  "items (actionRequired (buildSummary fadd fdiv now results)) =
     map actionItem
       (take 10 (filter (\<lambda>r. severityKey r = ''CRITICAL'') (filter actionable results) @
                 filter (\<lambda>r. severityKey r = ''HIGH'') (filter actionable results))) \<and>
   length (items (actionRequired (buildSummary fadd fdiv now results))) \<le> 10 \<and>
   action_count (actionRequired (buildSummary fadd fdiv now results)) =
     length (items (actionRequired (buildSummary fadd fdiv now results)))"
proof -
  have "items (actionRequired (buildSummary fadd fdiv now results)) =
          map actionItem (actionRequiredFindings results)"
    and "action_count (actionRequired (buildSummary fadd fdiv now results)) =
          length (actionRequiredFindings results)"
    by (simp_all add: buildSummary_def Let_def)
  moreover have "length (actionRequiredFindings results) \<le> 10"
    by (simp add: actionRequiredFindings_def)
  ultimately show ?thesis
    by (simp add: actionRequiredFindings_eq)
qed


text \<open>
  C6. The values of \<^verbatim>\<open>bySeverity\<close>, canonical and other, add up to the length of the
  findings array, where a finding without a severity is counted under \<^verbatim>\<open>UNKNOWN\<close> and a
  severity is put in upper case before it is counted.
\<close>

theorem bySeverity_sum:
  "sum_list (map snd (bySeverity (summary_overview (buildSummary fadd fdiv now results)))) =
     length results \<and>
   severityKey (r\<lparr>severity := None\<rparr>) = ''UNKNOWN'' \<and>
   severityKey (r\<lparr>severity := Some s\<rparr>) = toUpperCase s"
  by (simp add: bySeverity_eq sum_defaults_zero sum_countBy severityKey_def get_default_def
        toUpperCase_def upper_char_def)

text \<open>
  C7. For every ecosystem summary, \<^verbatim>\<open>critical + high \<le> count\<close> and
  \<^verbatim>\<open>fixable \<le> count\<close>, where \<^verbatim>\<open>count\<close> is the number of findings of that ecosystem,
  \<^verbatim>\<open>critical\<close> and \<^verbatim>\<open>high\<close> count those of them whose severity is exactly
  \<^verbatim>\<open>CRITICAL\<close> and \<^verbatim>\<open>HIGH\<close>, and \<^verbatim>\<open>fixable\<close> those whose classification is
  \<^verbatim>\<open>SAFE_PATCH\<close>, \<^verbatim>\<open>MINOR_BUMP\<close> or \<^verbatim>\<open>MAJOR_BUMP_SAFE\<close>.
\<close>

theorem ecosystem_counters:
  "\<forall>(k, e) \<in> set (ecosystems (buildSummary fadd fdiv now results)).
     critical e + high e \<le> count e \<and> fixable e \<le> count e \<and>
     ecosystem e = k \<and>
     count e = length (filter (\<lambda>r. ecosystemKey r = k) results) \<and>
     critical e =
       length (filter (\<lambda>r. ecosystemKey r = k \<and> severity r = Some ''CRITICAL'') results) \<and>
     high e = length (filter (\<lambda>r. ecosystemKey r = k \<and> severity r = Some ''HIGH'') results) \<and>
     fixable e =
       length (filter (\<lambda>r. ecosystemKey r = k \<and>
                 (classification r = Some ''SAFE_PATCH'' \<or>
                  classification r = Some ''MINOR_BUMP'' \<or>
                  classification r = Some ''MAJOR_BUMP_SAFE'')) results)"
proof (intro ballI, clarify)
  fix k e
  assume "(k, e) \<in> set (ecosystems (buildSummary fadd fdiv now results))"
  then obtain its where its: "(k, its) \<in> set (groupBy results ecosystemKey)"
    and e: "e = ecosystemSummary its k"
    by (auto simp: ecosystems_eq mapValues_def)
  from its have group: "its = filter (\<lambda>r. ecosystemKey r = k) results"
    by (rule groupBy_entry)
  have "length (filter (\<lambda>i. severity i = Some ''CRITICAL'') its) +
        length (filter (\<lambda>i. severity i = Some ''HIGH'') its) \<le> length its"
    by (rule length_two_filters) auto
  then have le: "critical e + high e \<le> count e"
    by (simp add: e ecosystemSummary_def)
  have fx: "fixable e \<le> count e"
    by (simp add: e ecosystemSummary_def)
  have conj_filter: "\<And>P. filter P its = filter (\<lambda>r. ecosystemKey r = k \<and> P r) results"
    by (auto simp: group intro: filter_cong)
  show "critical e + high e \<le> count e \<and> fixable e \<le> count e \<and>
     ecosystem e = k \<and>
     count e = length (filter (\<lambda>r. ecosystemKey r = k) results) \<and>
     critical e =
       length (filter (\<lambda>r. ecosystemKey r = k \<and> severity r = Some ''CRITICAL'') results) \<and>
     high e = length (filter (\<lambda>r. ecosystemKey r = k \<and> severity r = Some ''HIGH'') results) \<and>
     fixable e =
       length (filter (\<lambda>r. ecosystemKey r = k \<and>
                 (classification r = Some ''SAFE_PATCH'' \<or>
                  classification r = Some ''MINOR_BUMP'' \<or>
                  classification r = Some ''MAJOR_BUMP_SAFE'')) results)"
    using le fx
    by (simp add: e ecosystemSummary_def conj_filter) (simp add: group)
qed

theorem ecosystem_counters_witness:
  "(''npm'', \<lparr> ecosystem = ''npm'', count = 2, critical = 1, high = 1, fixable = 2 \<rparr>)
     \<in> set (ecosystems (buildSummary (+) (/) ''2024-01-01T00:00:00.000Z'' example_findings)) \<and>
   (1::nat) + 1 \<le> 2 \<and> (2::nat) \<le> 2 \<and>
   length (filter (\<lambda>r. ecosystemKey r = ''npm'') example_findings) = 2"
proof -
  let ?e = "\<lparr> ecosystem = ''npm'', count = 2, critical = 1, high = 1, fixable = 2 \<rparr>"
  have mem: "(''npm'', ?e)
     \<in> set (ecosystems (buildSummary (+) (/) ''2024-01-01T00:00:00.000Z'' example_findings))"
    by (simp add: build_defs example_findings_def)
  from ecosystem_counters [of "(+)" "(/)" "''2024-01-01T00:00:00.000Z''" example_findings] mem
  have "critical ?e + high ?e \<le> count ?e \<and> fixable ?e \<le> count ?e \<and>
        count ?e = length (filter (\<lambda>r. ecosystemKey r = ''npm'') example_findings)"
    by blast
  with mem show ?thesis by simp
qed

text \<open>
  C8. For the empty findings array, \<^verbatim>\<open>buildSummary\<close> returns a summary with a total of 0,
  the four canonical severity counts at 0, an empty classification mapping, no ecosystem,
  an action count of 0 with no item, a confidence average and minimum of 0 and the three
  distribution buckets at 0.
\<close>

theorem empty_summary:
  "buildSummary fadd fdiv now [] =
     \<lparr> generatedAt = now,
       summary_overview =
         \<lparr> totalVulnerabilities = 0,
           bySeverity = [(''CRITICAL'', 0), (''HIGH'', 0), (''MEDIUM'', 0), (''LOW'', 0)],
           byClassification = [] \<rparr>,
       ecosystems = [],
       actionRequired = \<lparr> action_count = 0, items = [] \<rparr>,
       summary_confidence =
         \<lparr> average = 0, minimum = 0,
           distribution = \<lparr> dist_high = 0, dist_medium = 0, dist_low = 0 \<rparr> \<rparr> \<rparr>"
  by (simp add: build_defs)

text \<open>
  C9. \<^verbatim>\<open>renderMarkdown\<close> is a function of the summary: two summaries that agree in
  every field but \<^verbatim>\<open>generatedAt\<close> are rendered to the same text up to the timestamp
  in the last line, and so to the same text when the timestamps agree too.
\<close>

theorem renderMarkdown_timestamp:
  assumes "summary_overview s' = summary_overview s" and "ecosystems s' = ecosystems s"
    and "actionRequired s' = actionRequired s" and "summary_confidence s' = summary_confidence s"
  shows "\<exists>body.
           renderMarkdown num s = body @ [CHR 0x0A] @ ''_Generated: '' @ generatedAt s @ ''_'' \<and>
           renderMarkdown num s' = body @ [CHR 0x0A] @ ''_Generated: '' @ generatedAt s' @ ''_''"
proof (intro exI conjI)
  show "renderMarkdown num s =
          join (butlast (renderLines num s)) [CHR 0x0A] @ [CHR 0x0A] @
          ''_Generated: '' @ generatedAt s @ ''_''"
    by (rule renderMarkdown_split)
  show "renderMarkdown num s' =
          join (butlast (renderLines num s)) [CHR 0x0A] @ [CHR 0x0A] @
          ''_Generated: '' @ generatedAt s' @ ''_''"
    using renderMarkdown_split [of num s'] renderLines_butlast [OF assms, of num] by simp
qed

theorem renderMarkdown_timestamp_witness:
  "summary_overview (buildSummary (+) (/) ''2024-01-02T00:00:00.000Z'' example_findings) =
     summary_overview (buildSummary (+) (/) ''2024-01-01T00:00:00.000Z'' example_findings) \<and>
   ecosystems (buildSummary (+) (/) ''2024-01-02T00:00:00.000Z'' example_findings) =
     ecosystems (buildSummary (+) (/) ''2024-01-01T00:00:00.000Z'' example_findings) \<and>
   actionRequired (buildSummary (+) (/) ''2024-01-02T00:00:00.000Z'' example_findings) =
     actionRequired (buildSummary (+) (/) ''2024-01-01T00:00:00.000Z'' example_findings) \<and>
   summary_confidence (buildSummary (+) (/) ''2024-01-02T00:00:00.000Z'' example_findings) =
     summary_confidence (buildSummary (+) (/) ''2024-01-01T00:00:00.000Z'' example_findings) \<and>
   (\<exists>body.
      renderMarkdown (\<lambda>x. if x = 6 / 10 then ''0.6'' else ''0.3'')
          (buildSummary (+) (/) ''2024-01-01T00:00:00.000Z'' example_findings) =
        body @ [CHR 0x0A] @ ''_Generated: 2024-01-01T00:00:00.000Z_'' \<and>
      renderMarkdown (\<lambda>x. if x = 6 / 10 then ''0.6'' else ''0.3'')
          (buildSummary (+) (/) ''2024-01-02T00:00:00.000Z'' example_findings) =
        body @ [CHR 0x0A] @ ''_Generated: 2024-01-02T00:00:00.000Z_'')"
proof -
  let ?s = "buildSummary (+) (/) ''2024-01-01T00:00:00.000Z'' example_findings"
  let ?s' = "buildSummary (+) (/) ''2024-01-02T00:00:00.000Z'' example_findings"
  have h: "summary_overview ?s' = summary_overview ?s" "ecosystems ?s' = ecosystems ?s"
    "actionRequired ?s' = actionRequired ?s" "summary_confidence ?s' = summary_confidence ?s"
    by (simp_all add: buildSummary_def Let_def)
  have t: "generatedAt ?s = ''2024-01-01T00:00:00.000Z''"
    "generatedAt ?s' = ''2024-01-02T00:00:00.000Z''"
    by (simp_all add: buildSummary_def Let_def)
  from renderMarkdown_timestamp [OF h, of "\<lambda>x. if x = 6 / 10 then ''0.6'' else ''0.3''"]
  show ?thesis
    unfolding t using h by simp
qed

text \<open>
  C10. The comparison of the severity is case-sensitive in the ecosystem summaries and
  case-insensitive in the action ranker and in the severity counts: the finding with the
  severity \<^verbatim>\<open>critical\<close> and the classification \<^verbatim>\<open>SAFE_PATCH\<close> is an action item and is
  counted under the key \<^verbatim>\<open>CRITICAL\<close>, and the \<^verbatim>\<open>critical\<close> counter of its ecosystem is 0.
\<close>

theorem severity_case_asymmetry:
  "severity lowercase_finding = Some ''critical'' \<and>
   classification lowercase_finding = Some ''SAFE_PATCH'' \<and>
   items (actionRequired (buildSummary fadd fdiv now [lowercase_finding])) =
     [actionItem lowercase_finding] \<and>
   map_of (bySeverity (summary_overview (buildSummary fadd fdiv now [lowercase_finding]))) ''CRITICAL'' =
     Some 1 \<and>
   ecosystems (buildSummary fadd fdiv now [lowercase_finding]) =
     [(''npm'', \<lparr> ecosystem = ''npm'', count = 1, critical = 0, high = 0, fixable = 1 \<rparr>)]"
  by (simp add: build_defs lowercase_finding_def)

end
